theory Spec2Isabelle
  imports Complex_Main
begin

section \<open>SpeakHub voice manager: data model\<close>

text \<open>
  The model follows \<^verbatim>\<open>src/SpeakHub.py\<close>. Discord identifiers (snowflakes) are Python
  ints. The event-loop clock (\<^verbatim>\<open>asyncio.get_event_loop().time()\<close>, seconds) is a
  real number; rounding of Python floats is not modelled. Wall-clock datetimes
  (\<^verbatim>\<open>datetime.now()\<close>) are integers counting microseconds, the resolution of a Python
  datetime, so that \<^verbatim>\<open>timedelta(hours=2)\<close> is an exact integer.
\<close>

subsection \<open>The SQLite tables of \<^verbatim>\<open>setup_database\<close>\<close>

text \<open>
  \<^verbatim>\<open>voice_channels(channel_id INTEGER PRIMARY KEY, owner_id INTEGER,
  interface_message_id INTEGER DEFAULT NULL)\<close>.
\<close>

record voice_channels_row =
  channel_id :: int
  owner_id :: int
  interface_message_id :: "int option"

text \<open>
  \<^verbatim>\<open>user_invites(id AUTOINCREMENT, inviter_id, invited_user_id, invited_at TEXT,
  channel_id, UNIQUE(inviter_id, invited_user_id, channel_id))\<close>. The autoincrement id is
  read by no query of the program; the position in the list stands for it. The ISO text
  of \<^verbatim>\<open>invited_at\<close> is kept as the instant it denotes (ISO texts of one format sort as
  the instants do).
\<close>

record user_invites_row =
  inviter_id :: int
  invited_user_id :: int
  invited_at :: int
  invite_channel_id :: "int option"

subsection \<open>The platform (Discord guild) as the program sees it\<close>

text \<open>
  A \<^verbatim>\<open>discord.PermissionOverwrite\<close> restricted to the four permissions the program
  ever passes: each is allowed (\<open>Some True\<close>), denied (\<open>Some False\<close>) or inherited
  (\<open>None\<close>).
\<close>

record overwrite =
  connect :: "bool option"
  manage_channels :: "bool option"
  move_members :: "bool option"
  mute_members :: "bool option"

datatype target = Default_role | Member int

record voice_channel =
  channel_name :: string
  user_limit :: int
  overwrites :: "target \<Rightarrow> overwrite"

text \<open>A \<^verbatim>\<open>discord.Member\<close>: \<open>member_bot\<close> is the attribute \<^verbatim>\<open>member.bot\<close>.\<close>

record member =
  member_id :: int
  member_bot :: bool
  display_name :: string

subsection \<open>Configuration (\<^verbatim>\<open>DEFAULT_CONFIG\<close>, the keys the manager reads)\<close>

record config =
  create_voice_channel_id :: int
  voice_category_id :: int
  cooldown_time :: real
  default_channel_prefix :: string
  default_user_permissions :: overwrite

subsection \<open>The state: the cog's dictionaries, the database, the guild\<close>

text \<open>
  \<open>voice_channels\<close> and \<open>cooldowns\<close> are the two dictionaries of \<^verbatim>\<open>VoiceManager\<close>;
  the three \<open>tbl_\<close> fields are the tables behind \<^verbatim>\<open>self.db_conn\<close> (blocked_users rows
  are pairs \<open>(channel_id, user_id)\<close>); the remaining fields are what the Discord
  client reports: the voice channels by id (\<^verbatim>\<open>get_channel\<close>), the category channels,
  the guild's members (\<^verbatim>\<open>get_member\<close>), the voice channel each member is connected to
  (\<^verbatim>\<open>member.voice.channel.id\<close>) and the messages that can be fetched from the guild's
  text channels.
\<close>

record state =
  voice_channels :: "int \<rightharpoonup> int"
  cooldowns :: "int \<rightharpoonup> real"
  tbl_voice_channels :: "voice_channels_row list"
  tbl_blocked_users :: "(int \<times> int) list"
  tbl_user_invites :: "user_invites_row list"
  channels :: "int \<rightharpoonup> voice_channel"
  categories :: "int set"
  members :: "int list"
  voice :: "int \<rightharpoonup> int"
  messages :: "int set"

section \<open>The calls to Discord\<close>

text \<open>
  Every Discord API call and every database query can raise. One record says, for the
  run of one handler, which kinds of call raise, and which id Discord gives to a channel
  created in that run. It also carries Python's \<^verbatim>\<open>str.lower\<close>: strings are kept as
  their bytes, and what lowering does to letters outside ASCII is left to this
  parameter.
\<close>

record env =
  new_channel_id :: int
  str_lower :: "string \<Rightarrow> string"
  create_voice_channel_raises :: bool
  move_to_raises :: bool
  set_permissions_raises :: bool
  edit_raises :: bool
  delete_raises :: bool
  message_delete_raises :: bool
  invite_query_raises :: bool

definition no_overwrite :: overwrite where
  "no_overwrite =
     \<lparr>connect = None, manage_channels = None, move_members = None, mute_members = None\<rparr>"

text \<open>
  \<^verbatim>\<open>channel.set_permissions(target, **perms)\<close> replaces the whole overwrite of the target
  by the one built from the keyword arguments.
\<close>

definition set_permissions :: "env \<Rightarrow> int \<Rightarrow> target \<Rightarrow> overwrite \<Rightarrow> state \<Rightarrow> state option" where
  "set_permissions e cid tg ow st =
     (if set_permissions_raises e then None
      else case channels st cid of
             None \<Rightarrow> None
           | Some ch \<Rightarrow>
               Some (st\<lparr>channels := (channels st)(cid \<mapsto> ch\<lparr>overwrites := (overwrites ch)(tg := ow)\<rparr>)\<rparr>))"

text \<open>\<^verbatim>\<open>member.move_to(channel)\<close>; \<open>None\<close> as destination disconnects the member.\<close>

definition move_to :: "env \<Rightarrow> int \<Rightarrow> int option \<Rightarrow> state \<Rightarrow> state option" where
  "move_to e uid dest st =
     (if move_to_raises e then None else Some (st\<lparr>voice := (voice st)(uid := dest)\<rparr>))"

text \<open>\<^verbatim>\<open>channel.edit(user_limit=n)\<close>.\<close>

definition edit_user_limit :: "env \<Rightarrow> int \<Rightarrow> int \<Rightarrow> state \<Rightarrow> state option" where
  "edit_user_limit e cid n st =
     (if edit_raises e then None
      else case channels st cid of
             None \<Rightarrow> None
           | Some ch \<Rightarrow> Some (st\<lparr>channels := (channels st)(cid \<mapsto> ch\<lparr>user_limit := n\<rparr>)\<rparr>))"

text \<open>\<^verbatim>\<open>channel.edit(name=s)\<close>.\<close>

definition edit_name :: "env \<Rightarrow> int \<Rightarrow> string \<Rightarrow> state \<Rightarrow> state option" where
  "edit_name e cid s st =
     (if edit_raises e then None
      else case channels st cid of
             None \<Rightarrow> None
           | Some ch \<Rightarrow> Some (st\<lparr>channels := (channels st)(cid \<mapsto> ch\<lparr>channel_name := s\<rparr>)\<rparr>))"

text \<open>\<^verbatim>\<open>channel.delete()\<close>: the channel is gone and its occupants are disconnected.\<close>

definition channel_delete :: "env \<Rightarrow> int \<Rightarrow> state \<Rightarrow> state option" where
  "channel_delete e cid st =
     (if delete_raises e then None
      else Some (st\<lparr>channels := (channels st)(cid := None),
                    voice := (\<lambda>u. if voice st u = Some cid then None else voice st u)\<rparr>))"

text \<open>
  \<^verbatim>\<open>category.create_voice_channel(name=..., overwrites=...)\<close>: a new channel with no user
  limit, under the id Discord chooses.
\<close>

definition category_create_voice_channel ::
  "env \<Rightarrow> string \<Rightarrow> (target \<Rightarrow> overwrite) \<Rightarrow> state \<Rightarrow> state option" where
  "category_create_voice_channel e nm ows st =
     (if create_voice_channel_raises e then None
      else Some (st\<lparr>channels := (channels st)(new_channel_id e \<mapsto>
                    \<lparr>channel_name = nm, user_limit = 0, overwrites = ows\<rparr>)\<rparr>))"

section \<open>Cooldown tracker\<close>

text \<open>
  \<^verbatim>\<open>VoiceManager.is_on_cooldown\<close>. The two readings of the loop clock inside one call
  are taken at the same instant \<open>now\<close>. The result is the returned flag and the state
  after the call.
\<close>

definition is_on_cooldown :: "config \<Rightarrow> real \<Rightarrow> int \<Rightarrow> state \<Rightarrow> bool \<times> state" where
  "is_on_cooldown cfg now user_id st =
     (case cooldowns st user_id of
        Some last_attempt \<Rightarrow>
          if now - last_attempt < cooldown_time cfg then (True, st)
          else (False, st\<lparr>cooldowns := (cooldowns st)(user_id \<mapsto> now)\<rparr>)
      | None \<Rightarrow> (False, st\<lparr>cooldowns := (cooldowns st)(user_id \<mapsto> now)\<rparr>))"

section \<open>Channel creation and destruction\<close>

text \<open>
  \<^verbatim>\<open>INSERT INTO voice_channels (channel_id, owner_id) VALUES (?, ?)\<close>: the primary key
  refuses a second row for the channel (\<open>None\<close> is the IntegrityError).
\<close>

definition insert_voice_channel :: "int \<Rightarrow> int \<Rightarrow> state \<Rightarrow> state option" where
  "insert_voice_channel cid uid st =
     (if cid \<in> set (map channel_id (tbl_voice_channels st)) then None
      else Some (st\<lparr>tbl_voice_channels := tbl_voice_channels st @
                    [\<lparr>channel_id = cid, owner_id = uid, interface_message_id = None\<rparr>]\<rparr>))"

text \<open>
  \<^verbatim>\<open>VoiceManager.create_voice_channel\<close>. The whole body is one \<^verbatim>\<open>try\<close>; an exception
  at any step is logged and ends the call with the effects made so far.
\<close>

definition create_voice_channel :: "config \<Rightarrow> env \<Rightarrow> member \<Rightarrow> state \<Rightarrow> state" where
  "create_voice_channel cfg e m st =
     (if voice_category_id cfg \<notin> categories st then st
      else
        let new_name = default_channel_prefix cfg @ str_lower e (display_name m);
            ows = (\<lambda>_. no_overwrite)
                    (Default_role := no_overwrite\<lparr>connect := Some True\<rparr>,
                     Member (member_id m) := default_user_permissions cfg)
        in case category_create_voice_channel e new_name ows st of
             None \<Rightarrow> st
           | Some st1 \<Rightarrow>
               (case move_to e (member_id m) (Some (new_channel_id e)) st1 of
                  None \<Rightarrow> st1
                | Some st2 \<Rightarrow>
                    (case insert_voice_channel (new_channel_id e) (member_id m) st2 of
                       None \<Rightarrow> st2
                     | Some st3 \<Rightarrow>
                         st3\<lparr>voice_channels :=
                               (voice_channels st3)(new_channel_id e \<mapsto> member_id m)\<rparr>)))"

text \<open>
  The best-effort removal of the interface message in \<^verbatim>\<open>delete_voice_channel\<close>: the
  text channels are searched for the message; every failure is swallowed.
\<close>

definition delete_interface_message :: "env \<Rightarrow> int \<Rightarrow> state \<Rightarrow> state" where
  "delete_interface_message e mid st =
     (if mid \<in> messages st \<and> \<not> message_delete_raises e
      then st\<lparr>messages := messages st - {mid}\<rparr> else st)"

text \<open>
  \<^verbatim>\<open>VoiceManager.delete_voice_channel\<close>: read the interface message id, delete the rows
  of both tables, drop the registry entry, remove the interface message if one is
  recorded (\<^verbatim>\<open>result and result[0]\<close>), delete the channel. A failing
  \<^verbatim>\<open>channel.delete()\<close> is logged.
\<close>

definition delete_voice_channel :: "env \<Rightarrow> int \<Rightarrow> state \<Rightarrow> state" where
  "delete_voice_channel e cid st =
     (let result = map_option interface_message_id
                     (find (\<lambda>r. channel_id r = cid) (tbl_voice_channels st));
          st1 = st\<lparr>tbl_voice_channels := filter (\<lambda>r. channel_id r \<noteq> cid) (tbl_voice_channels st),
                   tbl_blocked_users := filter (\<lambda>b. fst b \<noteq> cid) (tbl_blocked_users st)\<rparr>;
          st2 = st1\<lparr>voice_channels := (voice_channels st1)(cid := None)\<rparr>;
          st3 = (case result of
                   Some (Some mid) \<Rightarrow> if mid \<noteq> 0 then delete_interface_message e mid st2 else st2
                 | _ \<Rightarrow> st2)
      in case channel_delete e cid st3 of None \<Rightarrow> st3 | Some st4 \<Rightarrow> st4)"

text \<open>
  \<^verbatim>\<open>VoiceManager.on_voice_state_update(member, before, after)\<close>; \<open>before\<close> and
  \<open>after\<close> are the ids of \<^verbatim>\<open>before.channel\<close> and \<^verbatim>\<open>after.channel\<close>. The state is the
  one the handler sees when it resumes after its \<^verbatim>\<open>asyncio.sleep(0.5)\<close>: \<open>voice st\<close>
  is \<^verbatim>\<open>member.voice\<close> at the re-check.
\<close>

definition on_voice_state_update ::
  "config \<Rightarrow> env \<Rightarrow> real \<Rightarrow> member \<Rightarrow> int option \<Rightarrow> int option \<Rightarrow> state \<Rightarrow> state" where
  "on_voice_state_update cfg e now m before after st =
     (if member_bot m then st
      else if after = Some (create_voice_channel_id cfg) then
        (case is_on_cooldown cfg now (member_id m) st of
           (True, st1) \<Rightarrow> st1
         | (False, st1) \<Rightarrow> create_voice_channel cfg e m st1)
      else
        (case before of
           None \<Rightarrow> st
         | Some b \<Rightarrow>
             if b \<in> dom (voice_channels st) then
               if voice_channels st b = Some (member_id m) then
                 if voice st (member_id m) \<noteq> Some b then delete_voice_channel e b st else st
               else st
             else st))"

section \<open>Startup reconciliation\<close>

text \<open>
  \<^verbatim>\<open>VoiceManager.load_voice_channels\<close>: the loop over the rows fetched at the start. A
  row whose channel \<^verbatim>\<open>bot.get_channel\<close> does not find has its rows deleted from both
  tables; any other row is written into the registry.
\<close>

fun load_rows :: "voice_channels_row list \<Rightarrow> state \<Rightarrow> state" where
  "load_rows [] st = st"
| "load_rows (r # rs) st =
     load_rows rs
       (if channels st (channel_id r) = None
        then st\<lparr>tbl_voice_channels :=
                   filter (\<lambda>x. channel_id x \<noteq> channel_id r) (tbl_voice_channels st),
                 tbl_blocked_users :=
                   filter (\<lambda>b. fst b \<noteq> channel_id r) (tbl_blocked_users st)\<rparr>
        else st\<lparr>voice_channels := (voice_channels st)(channel_id r \<mapsto> owner_id r)\<rparr>)"

definition load_voice_channels :: "state \<Rightarrow> state" where
  "load_voice_channels st = load_rows (tbl_voice_channels st) st"

section \<open>Ownership and access control\<close>


text \<open>
  \<^verbatim>\<open>VoiceManager.get_blocked_users\<close>. SQLite answers the query from the index of the
  primary key \<^verbatim>\<open>(channel_id, user_id)\<close>: the user ids come in ascending order.
\<close>

definition get_blocked_users :: "state \<Rightarrow> int \<Rightarrow> int list" where
  "get_blocked_users st cid =
     sort (map snd (filter (\<lambda>b. fst b = cid) (tbl_blocked_users st)))"

text \<open>How a coroutine of the cog ends: it returns, or an exception leaves it.\<close>

datatype exit = Returned | Raised

text \<open>
  \<^verbatim>\<open>VoiceManager.block_user\<close>: \<^verbatim>\<open>INSERT OR IGNORE\<close> the row, then, if the channel and
  the member are found, deny connect and disconnect the member from this channel.
\<close>

definition block_user :: "env \<Rightarrow> int \<Rightarrow> int \<Rightarrow> state \<Rightarrow> exit \<times> state" where
  "block_user e cid user_id st =
     (let st1 = (if (cid, user_id) \<in> set (tbl_blocked_users st) then st
                 else st\<lparr>tbl_blocked_users := tbl_blocked_users st @ [(cid, user_id)]\<rparr>)
      in if channels st1 cid \<noteq> None \<and> user_id \<in> set (members st1) then
           (case set_permissions e cid (Member user_id) (no_overwrite\<lparr>connect := Some False\<rparr>) st1 of
              None \<Rightarrow> (Raised, st1)
            | Some st2 \<Rightarrow>
                if voice st2 user_id = Some cid then
                  (case move_to e user_id None st2 of
                     None \<Rightarrow> (Raised, st2)
                   | Some st3 \<Rightarrow> (Returned, st3))
                else (Returned, st2))
         else (Returned, st1))"

text \<open>
  \<^verbatim>\<open>VoiceManager.unblock_user\<close>: delete the row, then, if the channel and the member
  are found, set the member's overwrite to \<^verbatim>\<open>connect=True\<close>.
\<close>

definition unblock_user :: "env \<Rightarrow> int \<Rightarrow> int \<Rightarrow> state \<Rightarrow> exit \<times> state" where
  "unblock_user e cid user_id st =
     (let st1 = st\<lparr>tbl_blocked_users := filter (\<lambda>b. b \<noteq> (cid, user_id)) (tbl_blocked_users st)\<rparr>
      in if channels st1 cid \<noteq> None \<and> user_id \<in> set (members st1) then
           (case set_permissions e cid (Member user_id) (no_overwrite\<lparr>connect := Some True\<rparr>) st1 of
              None \<Rightarrow> (Raised, st1)
            | Some st2 \<Rightarrow> (Returned, st2))
         else (Returned, st1))"

subsection \<open>Invite rate limit\<close>

text \<open>\<^verbatim>\<open>self.invite_cooldown_duration = timedelta(hours=2)\<close>, in microseconds.\<close>

definition hours :: "int \<Rightarrow> int" where
  "hours n = n * 3600000000"

definition invite_cooldown_duration :: int where
  "invite_cooldown_duration = hours 2"

text \<open>
  The rows the query of \<^verbatim>\<open>check_invite_cooldown\<close> selects: inviter and invited match,
  and the channel too when a channel id is passed.
\<close>

definition invite_rows :: "state \<Rightarrow> int \<Rightarrow> int \<Rightarrow> int option \<Rightarrow> user_invites_row list" where
  "invite_rows st inviter invited cid =
     filter (\<lambda>r. inviter_id r = inviter \<and> invited_user_id r = invited
                 \<and> (case cid of None \<Rightarrow> True | Some c \<Rightarrow> invite_channel_id r = Some c))
       (tbl_user_invites st)"

text \<open>\<^verbatim>\<open>ORDER BY invited_at DESC LIMIT 1\<close> with \<^verbatim>\<open>fetchone()\<close>.\<close>

fun latest :: "int list \<Rightarrow> int option" where
  "latest [] = None"
| "latest (t # ts) = (case latest ts of None \<Rightarrow> Some t | Some u \<Rightarrow> Some (max t u))"

text \<open>
  \<^verbatim>\<open>VoiceManager.check_invite_cooldown\<close>: \<open>True\<close> means rate-limited. Any exception of
  the query (or of parsing the stored text) is caught and answered with \<open>False\<close>.
\<close>

definition check_invite_cooldown :: "env \<Rightarrow> int \<Rightarrow> state \<Rightarrow> int \<Rightarrow> int \<Rightarrow> int option \<Rightarrow> bool" where
  "check_invite_cooldown e now st inviter invited cid =
     (if invite_query_raises e then False
      else case latest (map invited_at (invite_rows st inviter invited cid)) of
             Some last_invite_time \<Rightarrow> now - last_invite_time < invite_cooldown_duration
           | None \<Rightarrow> False)"

text \<open>
  \<^verbatim>\<open>VoiceManager.save_invite_timestamp\<close>: a plain \<^verbatim>\<open>INSERT\<close>. The table's
  \<^verbatim>\<open>UNIQUE(inviter_id, invited_user_id, channel_id)\<close> refuses a second row for the triple
  (SQLite counts NULL channel ids as distinct); the IntegrityError is caught and logged.
\<close>

definition save_invite_timestamp :: "int \<Rightarrow> state \<Rightarrow> int \<Rightarrow> int \<Rightarrow> int option \<Rightarrow> state" where
  "save_invite_timestamp now st inviter invited cid =
     (if cid \<noteq> None \<and> invite_rows st inviter invited cid \<noteq> [] then st
      else st\<lparr>tbl_user_invites := tbl_user_invites st @
                 [\<lparr>inviter_id = inviter, invited_user_id = invited, invited_at = now,
                   invite_channel_id = cid\<rparr>]\<rparr>)"

section \<open>The control surface\<close>

text \<open>The embeds the handlers send, by their description texts.\<close>

datatype reply =
    Must_be_in_voice_channel
  | Not_managed
  | Not_the_owner
  | Does_not_exist_anymore
  | No_other_members
  | Locked
  | Unlocked
  | Enter_valid_number
  | No_longer_exists
  | Limit_removed
  | Limit_set int
  | User_not_found
  | Cannot_invite_yourself
  | Invite_cooldown
  | User_is_blocked
  | Invited
  | Unexpected_error
  | Not_in_your_channel
  | Renamed_to string
  | Could_not_find_user
  | Cannot_block_yourself

datatype action_type = Kick | Transfer

datatype ui =
    LimitMembersModal int
  | InviteUserModal int
  | RenameChannelModal int
  | MemberSelectView int "int list" action_type
  | BlockUserView int "int list"
  | BlockUserModal int

text \<open>
  What the interaction gets: a message, a modal or view, nothing at all (the handler
  returns without responding), or an exception leaving the handler.
\<close>

datatype outcome = Sent reply | Opened ui | Unanswered | Escaped





subsection \<open>Kick and transfer\<close>




subsection \<open>The limit modal\<close>

text \<open>
  Python's \<^verbatim>\<open>int(text)\<close> on ASCII text: surrounding whitespace (tab, line feed,
  vertical tab, form feed, carriage return, space) is skipped, one sign is allowed, then
  decimal digits, with single underscores between digits. \<open>None\<close> is the ValueError.
\<close>

definition is_space :: "char \<Rightarrow> bool" where
  "is_space c = (let n = (of_char c :: nat) in (9 \<le> n \<and> n \<le> 13) \<or> n = 32)"

definition is_digit :: "char \<Rightarrow> bool" where
  "is_digit c = (let n = (of_char c :: nat) in 48 \<le> n \<and> n \<le> 57)"

definition digit_value :: "char \<Rightarrow> int" where
  "digit_value c = int (of_char c) - 48"

definition strip :: "string \<Rightarrow> string" where
  "strip s = rev (dropWhile is_space (rev (dropWhile is_space s)))"

fun parse_digits :: "string \<Rightarrow> int \<Rightarrow> bool \<Rightarrow> int option" where
  "parse_digits [] acc after_digit = (if after_digit then Some acc else None)"
| "parse_digits (c # cs) acc after_digit =
     (if is_digit c then parse_digits cs (10 * acc + digit_value c) True
      else if c = CHR ''_'' \<and> after_digit then parse_digits cs acc False
      else None)"

definition py_int :: "string \<Rightarrow> int option" where
  "py_int s =
     (case strip s of
        [] \<Rightarrow> None
      | c # cs \<Rightarrow>
          if c = CHR ''-'' then map_option uminus (parse_digits cs 0 False)
          else if c = CHR ''+'' then parse_digits cs 0 False
          else parse_digits (c # cs) 0 False)"

text \<open>
  \<^verbatim>\<open>LimitMembersModal.on_submit\<close> for the modal opened on channel \<open>cid\<close>; \<open>text\<close> is
  \<^verbatim>\<open>self.limit.value\<close>. Only \<^verbatim>\<open>ValueError\<close> is caught. In the out-of-range branch the
  embed is built and the method returns without sending it.
\<close>

definition limit_on_submit :: "env \<Rightarrow> int \<Rightarrow> string \<Rightarrow> state \<Rightarrow> outcome \<times> state" where
  "limit_on_submit e cid text st =
     (case py_int text of
        None \<Rightarrow> (Sent Enter_valid_number, st)
      | Some limit_value \<Rightarrow>
          if limit_value < 0 \<or> limit_value > 99 then (Unanswered, st)
          else if channels st cid = None then (Sent No_longer_exists, st)
          else
            let new_limit = (if limit_value = 0 then 0 else limit_value)
            in case edit_user_limit e cid new_limit st of
                 None \<Rightarrow> (Escaped, st)
               | Some st1 \<Rightarrow>
                   (Sent (if new_limit = 0 then Limit_removed else Limit_set new_limit), st1))"

subsection \<open>The invite modal\<close>

text \<open>
  \<^verbatim>\<open>InviteUserModal.on_submit\<close> for the modal opened on channel \<open>cid\<close>, submitted by
  \<open>inviter\<close> at wall-clock time \<open>now\<close>. \<open>user\<close> is the guild member the entered text
  resolves to (by id, mention or name search), \<open>None\<close> when there is none. The
  database connection is open (\<^verbatim>\<open>setup_database\<close> raises otherwise). The body is one
  \<^verbatim>\<open>try\<close> whose handler answers every exception with the generic error. The direct
  message to the invited user is sent in a \<^verbatim>\<open>try\<close> of its own and changes nothing
  here.
\<close>

definition invite_on_submit ::
  "env \<Rightarrow> int \<Rightarrow> int \<Rightarrow> int \<Rightarrow> int option \<Rightarrow> state \<Rightarrow> outcome \<times> state" where
  "invite_on_submit e now cid inviter user st =
     (case user of
        None \<Rightarrow> (Sent User_not_found, st)
      | Some invited \<Rightarrow>
          if invited = inviter then (Sent Cannot_invite_yourself, st)
          else if check_invite_cooldown e now st inviter invited (Some cid)
            then (Sent Invite_cooldown, st)
          else if channels st cid = None then (Sent No_longer_exists, st)
          else if invited \<in> set (get_blocked_users st cid) then (Sent User_is_blocked, st)
          else
            (case set_permissions e cid (Member invited) (no_overwrite\<lparr>connect := Some True\<rparr>) st of
               None \<Rightarrow> (Sent Unexpected_error, st)
             | Some st1 \<Rightarrow>
                 (Sent Invited, save_invite_timestamp now st1 inviter invited (Some cid))))"

subsection \<open>The rename modal\<close>

text \<open>
  The string literal that \<^verbatim>\<open>DEFAULT_CONFIG["default_channel_prefix"]\<close> and
  \<^verbatim>\<open>RenameChannelModal.on_submit\<close> both spell out, as the bytes it has in the source
  file (sixteen bytes of non-ASCII characters and a space).
\<close>

definition prefix_literal :: string where
  "prefix_literal =
     map char_of [239, 163, 191, 195, 188, 195, 174, 195, 164, 226, 128, 154, 195, 175, 195, 168 :: nat]
       @ '' ''"

text \<open>
  \<^verbatim>\<open>RenameChannelModal.on_submit\<close> for the modal opened on channel \<open>cid\<close>; \<open>text\<close> is
  \<^verbatim>\<open>self.new_name.value\<close>. The embed for a missing channel is built and not sent; an
  exception of \<^verbatim>\<open>channel.edit\<close> leaves the handler.
\<close>

definition rename_on_submit :: "env \<Rightarrow> int \<Rightarrow> string \<Rightarrow> state \<Rightarrow> outcome \<times> state" where
  "rename_on_submit e cid text st =
     (if channels st cid = None then (Unanswered, st)
      else
        let new_name = prefix_literal @ text
        in case edit_name e cid new_name st of
             None \<Rightarrow> (Escaped, st)
           | Some st1 \<Rightarrow> (Sent (Renamed_to new_name), st1))"

subsection \<open>The block view\<close>

text \<open>
  The view behind the Block button holds an \<^verbatim>\<open>AddBlockButton\<close> and, when the list of
  blocked users is not empty, a \<^verbatim>\<open>RemoveBlockButton\<close>. Both are plain buttons: their
  callbacks do not run the checks of \<^verbatim>\<open>VoiceChannelButton.callback\<close>.
\<close>

definition add_block_button_callback :: "int \<Rightarrow> state \<Rightarrow> outcome \<times> state" where
  "add_block_button_callback cid st = (Opened (BlockUserModal cid), st)"

text \<open>
  \<^verbatim>\<open>RemoveBlockButton.callback\<close> builds the \<^verbatim>\<open>UnblockUserView\<close> (whose constructor
  reads \<^verbatim>\<open>cog.bot.get_channel(channel_id).guild\<close> and so raises when the channel is
  gone) and an embed, and sends neither.
\<close>

definition remove_block_button_callback :: "int \<Rightarrow> int list \<Rightarrow> state \<Rightarrow> outcome \<times> state" where
  "remove_block_button_callback cid blocked_users st =
     (if blocked_users = [] then (Unanswered, st)
      else if channels st cid = None then (Escaped, st)
      else (Unanswered, st))"

text \<open>
  \<^verbatim>\<open>BlockUserModal.on_submit\<close> for the modal opened on channel \<open>cid\<close>, submitted by
  \<open>user_id\<close>; \<open>user\<close> is the guild member the entered text resolves to, as in the
  invite modal. The embed of the success is built and not sent.
\<close>

definition block_on_submit ::
  "env \<Rightarrow> int \<Rightarrow> int \<Rightarrow> int option \<Rightarrow> state \<Rightarrow> outcome \<times> state" where
  "block_on_submit e cid user_id user st =
     (case user of
        None \<Rightarrow> (Sent Could_not_find_user, st)
      | Some blocked \<Rightarrow>
          if blocked = user_id then (Sent Cannot_block_yourself, st)
          else
            (case block_user e cid blocked st of
               (Raised, st1) \<Rightarrow> (Escaped, st1)
             | (Returned, st1) \<Rightarrow> (Unanswered, st1)))"

text \<open>\<^verbatim>\<open>UnblockUserView.select_callback\<close>; the embed of the success is not sent.\<close>

definition unblock_select_callback :: "env \<Rightarrow> int \<Rightarrow> int \<Rightarrow> state \<Rightarrow> outcome \<times> state" where
  "unblock_select_callback e cid selected_id st =
     (case unblock_user e cid selected_id st of
        (Raised, st1) \<Rightarrow> (Escaped, st1)
      | (Returned, st1) \<Rightarrow> (Unanswered, st1))"

section \<open>Example inputs\<close>

text \<open>The values of \<^verbatim>\<open>DEFAULT_CONFIG\<close>.\<close>

definition example_config :: config where
  "example_config =
     \<lparr>create_voice_channel_id = 1350793212696072276,
      voice_category_id = 1350793002754375750,
      cooldown_time = 5,
      default_channel_prefix = prefix_literal,
      default_user_permissions =
        \<lparr>connect = Some True, manage_channels = Some True,
         move_members = Some True, mute_members = Some True\<rparr>\<rparr>"

text \<open>The manager right after \<^verbatim>\<open>__init__\<close> on a fresh database, in an empty guild.\<close>

definition initial_state :: state where
  "initial_state =
     \<lparr>voice_channels = Map.empty, cooldowns = Map.empty,
      tbl_voice_channels = [], tbl_blocked_users = [], tbl_user_invites = [],
      channels = Map.empty, categories = {}, members = [], voice = Map.empty,
      messages = {}\<rparr>"

text \<open>What \<^verbatim>\<open>str.lower\<close> does to ASCII text; the names of the examples are ASCII.\<close>

definition ascii_lower :: "string \<Rightarrow> string" where
  "ascii_lower s =
     map (\<lambda>c. let n = (of_char c :: nat) in if 65 \<le> n \<and> n \<le> 90 then char_of (n + 32) else c) s"

text \<open>An environment in which no call raises; Discord hands out the channel id 200.\<close>

definition calm :: env where
  "calm =
     \<lparr>new_channel_id = 200, str_lower = ascii_lower,
      create_voice_channel_raises = False, move_to_raises = False,
      set_permissions_raises = False, edit_raises = False, delete_raises = False,
      message_delete_raises = False, invite_query_raises = False\<rparr>"

text \<open>
  A guild with the configured category and the members 10, 20 and 30, and one managed
  channel 100, created for member 10: its row, its registry entry, the overwrites of
  \<^verbatim>\<open>create_voice_channel\<close>. Members 10 and 20 are connected to it.
\<close>

definition example_channel :: voice_channel where
  "example_channel =
     \<lparr>channel_name = prefix_literal @ ''ann'', user_limit = 0,
      overwrites = (\<lambda>_. no_overwrite)
        (Default_role := no_overwrite\<lparr>connect := Some True\<rparr>,
         Member 10 := default_user_permissions example_config)\<rparr>"

definition example_room :: state where
  "example_room =
     \<lparr>voice_channels = [100 \<mapsto> 10], cooldowns = Map.empty,
      tbl_voice_channels = [\<lparr>channel_id = 100, owner_id = 10, interface_message_id = None\<rparr>],
      tbl_blocked_users = [], tbl_user_invites = [],
      channels = [100 \<mapsto> example_channel], categories = {1350793002754375750},
      members = [10, 20, 30], voice = [10 \<mapsto> 100, 20 \<mapsto> 100],
      messages = {}\<rparr>"

definition ann :: member where
  "ann = \<lparr>member_id = 10, member_bot = False, display_name = ''Ann''\<rparr>"

definition bea :: member where
  "bea = \<lparr>member_id = 20, member_bot = False, display_name = ''Bea''\<rparr>"

text \<open>The same room after member 10 has invited member 20 at time 0.\<close>

definition invited_once :: state where
  "invited_once = example_room\<lparr>tbl_user_invites :=
       [\<lparr>inviter_id = 10, invited_user_id = 20, invited_at = 0, invite_channel_id = Some 100\<rparr>]\<rparr>"

text \<open>
  The example room after channel 100 was deleted on the platform behind the manager's
  back: registry entry and rows (one of them a block) are still there.
\<close>

definition stale_room :: state where
  "stale_room = example_room\<lparr>tbl_blocked_users := [(100, 30)], channels := Map.empty,
      voice := Map.empty\<rparr>"

text \<open>
  The database found at a restart: the registry is empty, channel 100 still exists,
  channel 300 (owner 20) does not; each has one blocked user.
\<close>

definition restart_room :: state where
  "restart_room = example_room\<lparr>voice_channels := Map.empty,
      tbl_voice_channels :=
        [\<lparr>channel_id = 100, owner_id = 10, interface_message_id = None\<rparr>,
         \<lparr>channel_id = 300, owner_id = 20, interface_message_id = None\<rparr>],
      tbl_blocked_users := [(100, 30), (300, 10)]\<rparr>"




section \<open>Cooldown tracker: properties\<close>

lemma is_on_cooldown_first:
  "cooldowns st a = None \<Longrightarrow>
   is_on_cooldown cfg now a st = (False, st\<lparr>cooldowns := (cooldowns st)(a \<mapsto> now)\<rparr>)"
  by (simp add: is_on_cooldown_def)

lemma is_on_cooldown_elapsed:
  "cooldowns st a = Some t \<Longrightarrow> cooldown_time cfg \<le> now - t \<Longrightarrow>
   is_on_cooldown cfg now a st = (False, st\<lparr>cooldowns := (cooldowns st)(a \<mapsto> now)\<rparr>)"
  by (simp add: is_on_cooldown_def)

lemma is_on_cooldown_denied:
  "cooldowns st a = Some t \<Longrightarrow> now - t < cooldown_time cfg \<Longrightarrow>
   is_on_cooldown cfg now a st = (True, st)"
  by (simp add: is_on_cooldown_def)

lemma is_on_cooldown_admitted_stamp:
  "is_on_cooldown cfg now a st = (False, st') \<Longrightarrow> cooldowns st' a = Some now"
  by (auto simp: is_on_cooldown_def split: option.splits if_splits)

text \<open>
  Claim C4 as the spec words it: the attempt is admitted only when there is no prior
  attempt or the elapsed time \<^emph>\<open>exceeds\<close> the cooldown, and is denied otherwise. With a
  stored timestamp 0, the default cooldown 5 and the clock at exactly 5 the elapsed time
  does not exceed the cooldown, yet the code admits the attempt and overwrites the
  timestamp.
\<close>

theorem cooldown_boundary_counterexample:
  "cooldowns (initial_state\<lparr>cooldowns := [7 \<mapsto> 0]\<rparr>) 7 = Some 0
   \<and> \<not> ((5::real) - 0 > cooldown_time example_config)
   \<and> is_on_cooldown example_config 5 7 (initial_state\<lparr>cooldowns := [7 \<mapsto> 0]\<rparr>)
       = (False, initial_state\<lparr>cooldowns := [7 \<mapsto> 5]\<rparr>)"
  by (simp add: is_on_cooldown_def example_config_def initial_state_def)

text \<open>
  Claim C4, amended at the boundary: for every actor \<open>a\<close>, if \<open>a\<close> has no stored
  timestamp, or the time elapsed since the stored timestamp is at least the configured
  cooldown, the attempt is admitted and the timestamp becomes \<open>now\<close>; otherwise the
  attempt is denied and the state (the stored timestamp included) is left unchanged.
  Hence of two attempts by \<open>a\<close> less than one cooldown apart at most one is admitted,
  and an attempt made once the cooldown has elapsed since the stored timestamp is
  admitted.
\<close>

theorem cooldown_admission:
  "(is_on_cooldown cfg now a st =
      (if cooldowns st a = None \<or> (\<exists>t. cooldowns st a = Some t \<and> cooldown_time cfg \<le> now - t)
       then (False, st\<lparr>cooldowns := (cooldowns st)(a \<mapsto> now)\<rparr>)
       else (True, st)))
   \<and> (t2 - t1 < cooldown_time cfg \<longrightarrow>
        fst (is_on_cooldown cfg t1 a st)
        \<or> fst (is_on_cooldown cfg t2 a (snd (is_on_cooldown cfg t1 a st))))
   \<and> (cooldowns st a = Some t \<and> cooldown_time cfg \<le> now - t \<longrightarrow>
        \<not> fst (is_on_cooldown cfg now a st))"
proof (intro conjI impI)
  show "is_on_cooldown cfg now a st =
      (if cooldowns st a = None \<or> (\<exists>t. cooldowns st a = Some t \<and> cooldown_time cfg \<le> now - t)
       then (False, st\<lparr>cooldowns := (cooldowns st)(a \<mapsto> now)\<rparr>)
       else (True, st))"
    by (cases "cooldowns st a") (simp_all add: is_on_cooldown_def)
next
  assume near: "t2 - t1 < cooldown_time cfg"
  show "fst (is_on_cooldown cfg t1 a st)
        \<or> fst (is_on_cooldown cfg t2 a (snd (is_on_cooldown cfg t1 a st)))"
  proof (cases "fst (is_on_cooldown cfg t1 a st)")
    case True
    then show ?thesis by simp
  next
    case False
    obtain st1 where r1: "is_on_cooldown cfg t1 a st = (False, st1)"
      using False by (cases "is_on_cooldown cfg t1 a st") simp
    have "cooldowns st1 a = Some t1"
      using r1 by (rule is_on_cooldown_admitted_stamp)
    then have "is_on_cooldown cfg t2 a st1 = (True, st1)"
      using near by (rule is_on_cooldown_denied)
    then show ?thesis by (simp add: r1)
  qed
next
  assume "cooldowns st a = Some t \<and> cooldown_time cfg \<le> now - t"
  then show "\<not> fst (is_on_cooldown cfg now a st)"
    by (simp add: is_on_cooldown_elapsed)
qed

theorem cooldown_admission_witness:
  "is_on_cooldown example_config 1 7 initial_state
     = (False, initial_state\<lparr>cooldowns := [7 \<mapsto> 1]\<rparr>)
   \<and> (3::real) - 1 < cooldown_time example_config
   \<and> \<not> fst (is_on_cooldown example_config 1 7 initial_state)
   \<and> fst (is_on_cooldown example_config 3 7
             (snd (is_on_cooldown example_config 1 7 initial_state)))
   \<and> cooldowns (initial_state\<lparr>cooldowns := [7 \<mapsto> 1]\<rparr>) 7 = Some 1
   \<and> cooldown_time example_config \<le> 6 - 1
   \<and> \<not> fst (is_on_cooldown example_config 6 7 (initial_state\<lparr>cooldowns := [7 \<mapsto> 1]\<rparr>))"
proof -
  note inst1 = cooldown_admission [of example_config 1 7 initial_state 3 1 0]
  note inst2 = cooldown_admission
    [of example_config 6 7 "initial_state\<lparr>cooldowns := [7 \<mapsto> 1]\<rparr>" 0 0 1]
  have first: "is_on_cooldown example_config 1 7 initial_state
     = (False, initial_state\<lparr>cooldowns := [7 \<mapsto> 1]\<rparr>)"
    using inst1 [THEN conjunct1] by (simp add: initial_state_def)
  have near: "(3::real) - 1 < cooldown_time example_config"
    by (simp add: example_config_def)
  have admitted: "\<not> fst (is_on_cooldown example_config 1 7 initial_state)"
    by (simp add: first)
  have "fst (is_on_cooldown example_config 1 7 initial_state)
        \<or> fst (is_on_cooldown example_config 3 7
             (snd (is_on_cooldown example_config 1 7 initial_state)))"
    using inst1 [THEN conjunct2, THEN conjunct1] near by (rule mp)
  with admitted have second: "fst (is_on_cooldown example_config 3 7
             (snd (is_on_cooldown example_config 1 7 initial_state)))"
    by blast
  have stored: "cooldowns (initial_state\<lparr>cooldowns := [7 \<mapsto> 1]\<rparr>) 7 = Some 1"
    by simp
  have late: "cooldown_time example_config \<le> 6 - 1"
    by (simp add: example_config_def)
  have third: "\<not> fst (is_on_cooldown example_config 6 7 (initial_state\<lparr>cooldowns := [7 \<mapsto> 1]\<rparr>))"
    using inst2 [THEN conjunct2, THEN conjunct2] stored late by blast
  show ?thesis using first near admitted second stored late third by blast
qed

section \<open>Channel creation: a failing relocation\<close>

text \<open>
  Claim C2 as the spec words it: when the channel is created and moving the member into
  it fails, a row is persisted and a registry entry is inserted all the same. In the
  example room, with \<^verbatim>\<open>move_to\<close> raising, member 10 gets the new channel 200 on the
  platform, but the table has no row for 200 and the registry has no entry for 200.
\<close>

theorem create_relocation_failure_counterexample:
  "channels (create_voice_channel example_config (calm\<lparr>move_to_raises := True\<rparr>) ann example_room) 200
     \<noteq> None
   \<and> 200 \<notin> set (map channel_id (tbl_voice_channels
       (create_voice_channel example_config (calm\<lparr>move_to_raises := True\<rparr>) ann example_room)))
   \<and> voice_channels
       (create_voice_channel example_config (calm\<lparr>move_to_raises := True\<rparr>) ann example_room) 200
       = None"
  by (simp add: create_voice_channel_def category_create_voice_channel_def move_to_def
      example_config_def calm_def example_room_def Let_def)

text \<open>
  Claim C2, amended: when the category is found, the platform channel is created and the
  relocation of the member raises, the creation is not rolled back (the new channel stays
  on the platform), and the channel is not registered: both tables, the registry and the
  members' voice connections are as before the call.
\<close>

theorem create_relocation_failure:
  assumes "voice_category_id cfg \<in> categories st"
    and "\<not> create_voice_channel_raises e"
    and "move_to_raises e"
  shows "channels (create_voice_channel cfg e m st) (new_channel_id e) \<noteq> None
     \<and> tbl_voice_channels (create_voice_channel cfg e m st) = tbl_voice_channels st
     \<and> tbl_blocked_users (create_voice_channel cfg e m st) = tbl_blocked_users st
     \<and> voice_channels (create_voice_channel cfg e m st) = voice_channels st
     \<and> voice (create_voice_channel cfg e m st) = voice st"
  using assms
  by (simp add: create_voice_channel_def category_create_voice_channel_def move_to_def Let_def)

theorem create_relocation_failure_witness:
  "voice_category_id example_config \<in> categories example_room
   \<and> \<not> create_voice_channel_raises (calm\<lparr>move_to_raises := True\<rparr>)
   \<and> move_to_raises (calm\<lparr>move_to_raises := True\<rparr>)
   \<and> channels (create_voice_channel example_config (calm\<lparr>move_to_raises := True\<rparr>) bea example_room)
        (new_channel_id (calm\<lparr>move_to_raises := True\<rparr>)) \<noteq> None
   \<and> tbl_voice_channels
        (create_voice_channel example_config (calm\<lparr>move_to_raises := True\<rparr>) bea example_room)
       = [\<lparr>channel_id = 100, owner_id = 10, interface_message_id = None\<rparr>]
   \<and> voice_channels
        (create_voice_channel example_config (calm\<lparr>move_to_raises := True\<rparr>) bea example_room)
       = [100 \<mapsto> 10]"
proof -
  have category: "voice_category_id example_config \<in> categories example_room"
    by (simp add: example_config_def example_room_def)
  have created: "\<not> create_voice_channel_raises (calm\<lparr>move_to_raises := True\<rparr>)"
    by (simp add: calm_def)
  have stuck: "move_to_raises (calm\<lparr>move_to_raises := True\<rparr>)"
    by simp
  note inst = create_relocation_failure [OF category created stuck, of bea]
  have rows: "tbl_voice_channels example_room
      = [\<lparr>channel_id = 100, owner_id = 10, interface_message_id = None\<rparr>]"
    by (simp add: example_room_def)
  have registry: "voice_channels example_room = [100 \<mapsto> 10]"
    by (simp add: example_room_def)
  show ?thesis
    using category created stuck inst rows registry by simp
qed

section \<open>Invite rate limit: properties\<close>

lemmas invite_defs = invite_on_submit_def check_invite_cooldown_def save_invite_timestamp_def
  invite_rows_def get_blocked_users_def set_permissions_def invite_cooldown_duration_def hours_def

lemma save_invite_timestamp_again:
  "save_invite_timestamp t2 (save_invite_timestamp t1 st i j (Some c)) i j (Some c)
     = save_invite_timestamp t1 st i j (Some c)"
  by (simp add: save_invite_timestamp_def invite_rows_def)

text \<open>
  Claim C3, run on the code: in the example room member 10 invites member 20 into
  channel 100 at time 0; the invite is granted and its row is written. The attempt one
  hour later is answered with the cooldown message. The attempt three hours later is
  granted again, but the table still holds the single row of time 0: the
  \<^verbatim>\<open>INSERT\<close> of \<^verbatim>\<open>save_invite_timestamp\<close> violates the table's UNIQUE constraint and the
  error is swallowed, so no new row is appended.
\<close>

theorem invite_after_window_appends_no_row:
  "fst (invite_on_submit calm 0 100 10 (Some 20) example_room) = Sent Invited
   \<and> tbl_user_invites (snd (invite_on_submit calm 0 100 10 (Some 20) example_room))
       = [\<lparr>inviter_id = 10, invited_user_id = 20, invited_at = 0, invite_channel_id = Some 100\<rparr>]
   \<and> fst (invite_on_submit calm (hours 1) 100 10 (Some 20)
            (snd (invite_on_submit calm 0 100 10 (Some 20) example_room))) = Sent Invite_cooldown
   \<and> fst (invite_on_submit calm (hours 3) 100 10 (Some 20)
            (snd (invite_on_submit calm 0 100 10 (Some 20) example_room))) = Sent Invited
   \<and> tbl_user_invites (snd (invite_on_submit calm (hours 3) 100 10 (Some 20)
            (snd (invite_on_submit calm 0 100 10 (Some 20) example_room))))
       = [\<lparr>inviter_id = 10, invited_user_id = 20, invited_at = 0, invite_channel_id = Some 100\<rparr>]"
  by (simp add: invite_defs calm_def example_room_def)

text \<open>
  Claim C10: when the query inside \<^verbatim>\<open>check_invite_cooldown\<close> raises, the check answers
  not rate-limited, whatever the table holds; and then an invite of another member into
  an existing channel that does not block that member is granted (the member's connect
  overwrite becomes allowed), provided the permission call itself succeeds.
\<close>

theorem invite_check_fails_open:
  assumes "invite_query_raises e"
  shows "\<not> check_invite_cooldown e now st inviter invited c
     \<and> (\<not> set_permissions_raises e \<and> invited \<noteq> inviter \<and> channels st cid \<noteq> None
          \<and> invited \<notin> set (get_blocked_users st cid) \<longrightarrow>
        fst (invite_on_submit e now cid inviter (Some invited) st) = Sent Invited
        \<and> (\<exists>ch. channels (snd (invite_on_submit e now cid inviter (Some invited) st)) cid = Some ch
              \<and> connect (overwrites ch (Member invited)) = Some True))"
  using assms
  by (auto simp: invite_on_submit_def check_invite_cooldown_def set_permissions_def
      save_invite_timestamp_def no_overwrite_def)

text \<open>
  The witness: one hour after the recorded invite the check rate-limits and the modal
  refuses; with the query raising, the same attempt is granted.
\<close>

theorem invite_check_fails_open_witness:
  "invite_query_raises (calm\<lparr>invite_query_raises := True\<rparr>)
   \<and> check_invite_cooldown calm (hours 1) invited_once 10 20 (Some 100)
   \<and> fst (invite_on_submit calm (hours 1) 100 10 (Some 20) invited_once) = Sent Invite_cooldown
   \<and> \<not> check_invite_cooldown (calm\<lparr>invite_query_raises := True\<rparr>) (hours 1) invited_once 10 20 (Some 100)
   \<and> fst (invite_on_submit (calm\<lparr>invite_query_raises := True\<rparr>) (hours 1) 100 10 (Some 20) invited_once)
       = Sent Invited
   \<and> (\<exists>ch. channels (snd (invite_on_submit (calm\<lparr>invite_query_raises := True\<rparr>) (hours 1) 100 10
                (Some 20) invited_once)) 100 = Some ch
          \<and> connect (overwrites ch (Member 20)) = Some True)"
proof -
  have raises: "invite_query_raises (calm\<lparr>invite_query_raises := True\<rparr>)"
    by simp
  note inst = invite_check_fails_open
    [OF raises, of "hours 1" invited_once 10 20 "Some 100" 100]
  have limited: "check_invite_cooldown calm (hours 1) invited_once 10 20 (Some 100)"
    by (simp add: invite_defs calm_def invited_once_def example_room_def)
  have refused: "fst (invite_on_submit calm (hours 1) 100 10 (Some 20) invited_once) = Sent Invite_cooldown"
    by (simp add: invite_defs calm_def invited_once_def example_room_def)
  have pre: "\<not> set_permissions_raises (calm\<lparr>invite_query_raises := True\<rparr>) \<and> (20::int) \<noteq> 10
      \<and> channels invited_once 100 \<noteq> None \<and> 20 \<notin> set (get_blocked_users invited_once 100)"
    by (simp add: calm_def invited_once_def example_room_def get_blocked_users_def)
  show ?thesis
    using raises limited refused inst [THEN conjunct1] inst [THEN conjunct2, THEN mp, OF pre]
    by blast
qed

section \<open>The limit modal: properties\<close>

lemma limit_on_submit_not_numeric:
  "py_int text = None \<Longrightarrow> limit_on_submit e cid text st = (Sent Enter_valid_number, st)"
  by (simp add: limit_on_submit_def)

lemma limit_on_submit_out_of_range:
  "py_int text = Some v \<Longrightarrow> v < 0 \<or> 99 < v \<Longrightarrow> limit_on_submit e cid text st = (Unanswered, st)"
  by (auto simp: limit_on_submit_def)

lemma limit_on_submit_accepts:
  "py_int text = Some v \<Longrightarrow> 0 \<le> v \<Longrightarrow> v \<le> 99 \<Longrightarrow> channels st cid = Some ch \<Longrightarrow>
   \<not> edit_raises e \<Longrightarrow>
   limit_on_submit e cid text st =
     (Sent (if v = 0 then Limit_removed else Limit_set v),
      st\<lparr>channels := (channels st)(cid \<mapsto> ch\<lparr>user_limit := v\<rparr>)\<rparr>)"
  by (auto simp: limit_on_submit_def edit_user_limit_def)

text \<open>
  Claim C9, run on the code: the text \<open>-1\<close> parses to the integer \<open>-1\<close>, which is out
  of range. The handler changes nothing and raises nothing, but it also sends nothing:
  the embed asking for a number between 0 and 99 is built and dropped, so no validation
  error reaches the actor.
\<close>

theorem limit_out_of_range_unanswered:
  "py_int ''-1'' = Some (- 1) \<and> limit_on_submit e cid ''-1'' st = (Unanswered, st)"
  by (simp add: limit_on_submit_def py_int_def strip_def is_space_def is_digit_def digit_value_def)

section \<open>Block and unblock: properties\<close>

lemmas block_defs = block_user_def unblock_user_def set_permissions_def move_to_def

text \<open>
  Claim C6 as the spec words it: unblock after block restores the member's connect right
  to its value before the block. In the example room member 20 has no overwrite on
  channel 100 (connect is inherited); after \<^verbatim>\<open>block_user\<close> and \<^verbatim>\<open>unblock_user\<close> the
  member's connect is explicitly allowed.
\<close>

theorem unblock_after_block_counterexample:
  "(\<exists>ch. channels example_room 100 = Some ch \<and> connect (overwrites ch (Member 20)) = None)
   \<and> fst (block_user calm 100 20 example_room) = Returned
   \<and> fst (unblock_user calm 100 20 (snd (block_user calm 100 20 example_room))) = Returned
   \<and> (\<exists>ch. channels (snd (unblock_user calm 100 20 (snd (block_user calm 100 20 example_room)))) 100
             = Some ch
          \<and> connect (overwrites ch (Member 20)) = Some True)"
  by (simp add: block_defs calm_def example_room_def example_channel_def no_overwrite_def)

lemma unblock_user_idem:
  assumes "unblock_user e cid u st = (Returned, st')"
  shows "unblock_user e cid u st' = (Returned, st')"
  using assms
  by (auto simp: unblock_user_def set_permissions_def Let_def split: if_splits option.splits)

lemma block_user_rows:
  assumes "block_user e cid u st = (x, st1)"
  shows "filter (\<lambda>b. b \<noteq> (cid, u)) (tbl_blocked_users st1) = filter (\<lambda>b. b \<noteq> (cid, u)) (tbl_blocked_users st)"
  using assms
  by (auto simp: block_defs Let_def split: if_splits option.splits)

lemma block_user_platform:
  assumes "block_user e cid u st = (x, st1)"
  shows "members st1 = members st \<and> (channels st1 cid \<noteq> None) = (channels st cid \<noteq> None)
     \<and> (\<not> (channels st cid \<noteq> None \<and> u \<in> set (members st)) \<longrightarrow> channels st1 = channels st)"
  using assms
  by (auto simp: block_defs Let_def split: if_splits option.splits)

lemma unblock_user_rows:
  assumes "unblock_user e cid u st1 = (x, st2)"
  shows "tbl_blocked_users st2 = filter (\<lambda>b. b \<noteq> (cid, u)) (tbl_blocked_users st1)"
  using assms
  by (auto simp: block_defs Let_def split: if_splits option.splits)

lemma unblock_user_platform:
  assumes "unblock_user e cid u st1 = (Returned, st2)"
  shows "(channels st1 cid \<noteq> None \<and> u \<in> set (members st1) \<longrightarrow>
           (\<exists>ch. channels st2 cid = Some ch
              \<and> overwrites ch (Member u) = no_overwrite\<lparr>connect := Some True\<rparr>))
     \<and> (\<not> (channels st1 cid \<noteq> None \<and> u \<in> set (members st1)) \<longrightarrow> channels st2 = channels st1)"
  using assms
  by (auto simp: block_defs Let_def split: if_splits option.splits)

text \<open>
  Claim C6, amended: for every channel \<open>cid\<close> and user \<open>u\<close>, when \<^verbatim>\<open>block_user\<close> and
  then \<^verbatim>\<open>unblock_user\<close> return, the row \<open>(cid, u)\<close> is gone from
  \<^verbatim>\<open>blocked_users\<close> and the other rows are those of before; if the channel and the
  member are found, the member's overwrite on the channel is \<^verbatim>\<open>connect=True\<close> (allowed,
  whatever it was before the block), otherwise the channels are untouched; and
  repeating the unblock changes nothing.
\<close>

theorem unblock_after_block:
  assumes blocked: "block_user e cid u st = (Returned, st1)"
    and unblocked: "unblock_user e cid u st1 = (Returned, st2)"
  shows "tbl_blocked_users st2 = filter (\<lambda>b. b \<noteq> (cid, u)) (tbl_blocked_users st)
     \<and> (cid, u) \<notin> set (tbl_blocked_users st2)
     \<and> (channels st cid \<noteq> None \<and> u \<in> set (members st) \<longrightarrow>
           (\<exists>ch. channels st2 cid = Some ch
              \<and> overwrites ch (Member u) = no_overwrite\<lparr>connect := Some True\<rparr>))
     \<and> (\<not> (channels st cid \<noteq> None \<and> u \<in> set (members st)) \<longrightarrow> channels st2 = channels st)
     \<and> unblock_user e cid u st2 = (Returned, st2)"
proof -
  have rows: "tbl_blocked_users st2 = filter (\<lambda>b. b \<noteq> (cid, u)) (tbl_blocked_users st)"
    using unblock_user_rows [OF unblocked] block_user_rows [OF blocked] by simp
  then have gone: "(cid, u) \<notin> set (tbl_blocked_users st2)"
    by simp
  note p1 = block_user_platform [OF blocked]
  note p2 = unblock_user_platform [OF unblocked]
  have found: "channels st cid \<noteq> None \<and> u \<in> set (members st) \<longrightarrow>
           (\<exists>ch. channels st2 cid = Some ch
              \<and> overwrites ch (Member u) = no_overwrite\<lparr>connect := Some True\<rparr>)"
    using p1 p2 by simp
  have missing: "\<not> (channels st cid \<noteq> None \<and> u \<in> set (members st)) \<longrightarrow> channels st2 = channels st"
    using p1 p2 by auto
  show ?thesis
    using rows gone found missing unblock_user_idem [OF unblocked] by blast
qed

text \<open>
  The witness: member 20 of the example room, and the id 99 of nobody in the guild (the
  row comes and goes, the channel permissions stay).
\<close>

theorem unblock_after_block_witness:
  "fst (block_user calm 100 20 example_room) = Returned
   \<and> fst (unblock_user calm 100 20 (snd (block_user calm 100 20 example_room))) = Returned
   \<and> channels example_room 100 \<noteq> None \<and> 20 \<in> set (members example_room)
   \<and> (100, 20) \<notin> set (tbl_blocked_users
         (snd (unblock_user calm 100 20 (snd (block_user calm 100 20 example_room)))))
   \<and> (\<exists>ch. channels (snd (unblock_user calm 100 20 (snd (block_user calm 100 20 example_room)))) 100
             = Some ch
          \<and> overwrites ch (Member 20) = no_overwrite\<lparr>connect := Some True\<rparr>)
   \<and> unblock_user calm 100 20 (snd (unblock_user calm 100 20 (snd (block_user calm 100 20 example_room))))
       = (Returned, snd (unblock_user calm 100 20 (snd (block_user calm 100 20 example_room))))
   \<and> block_user calm 100 99 example_room
       = (Returned, example_room\<lparr>tbl_blocked_users := [(100, 99)]\<rparr>)
   \<and> unblock_user calm 100 99 (example_room\<lparr>tbl_blocked_users := [(100, 99)]\<rparr>)
       = (Returned, example_room)
   \<and> 99 \<notin> set (members example_room)"
proof -
  define s1 where "s1 = snd (block_user calm 100 20 example_room)"
  define s2 where "s2 = snd (unblock_user calm 100 20 s1)"
  have b1: "fst (block_user calm 100 20 example_room) = Returned"
    by (simp add: block_defs calm_def example_room_def)
  have b2: "fst (unblock_user calm 100 20 (snd (block_user calm 100 20 example_room))) = Returned"
    by (simp add: block_defs calm_def example_room_def)
  have blocked: "block_user calm 100 20 example_room = (Returned, s1)"
    using b1 by (simp add: s1_def prod_eq_iff)
  have unblocked: "unblock_user calm 100 20 s1 = (Returned, s2)"
    using b2 by (simp add: s1_def s2_def prod_eq_iff)
  have found: "channels example_room 100 \<noteq> None \<and> 20 \<in> set (members example_room)"
    by (simp add: example_room_def)
  note inst = unblock_after_block [OF blocked unblocked]
  have member: "(100, 20) \<notin> set (tbl_blocked_users s2)
     \<and> (\<exists>ch. channels s2 100 = Some ch
            \<and> overwrites ch (Member 20) = no_overwrite\<lparr>connect := Some True\<rparr>)
     \<and> unblock_user calm 100 20 s2 = (Returned, s2)"
    using inst found by blast
  have blocked': "block_user calm 100 99 example_room
       = (Returned, example_room\<lparr>tbl_blocked_users := [(100, 99)]\<rparr>)"
    by (simp add: block_defs calm_def example_room_def)
  have unblocked': "unblock_user calm 100 99 (example_room\<lparr>tbl_blocked_users := [(100, 99)]\<rparr>)
       = (Returned, example_room)"
    by (simp add: block_defs calm_def example_room_def)
  have stranger: "99 \<notin> set (members example_room)"
    by (simp add: example_room_def)
  show ?thesis
    using b1 b2 found member blocked' unblocked' stranger
    by (simp add: s1_def s2_def)
qed

section \<open>Startup reconciliation: properties\<close>

text \<open>
  Claim C7 as the spec words it: a row whose channel is absent has its rows deleted and
  its registry entry dropped. In \<open>stale_room\<close> the registry records channel 100, which
  is gone from the platform; \<^verbatim>\<open>load_voice_channels\<close> deletes the rows of both tables
  and leaves the registry entry where it was.
\<close>

theorem load_keeps_stale_registry_entry_counterexample:
  "voice_channels stale_room 100 = Some 10
   \<and> channels stale_room 100 = None
   \<and> tbl_voice_channels (load_voice_channels stale_room) = []
   \<and> tbl_blocked_users (load_voice_channels stale_room) = []
   \<and> voice_channels (load_voice_channels stale_room) 100 = Some 10"
  by (simp add: load_voice_channels_def stale_room_def example_room_def)

lemma map_add_snoc: "m ++ map_of (xs @ [(k, v)]) = m(k \<mapsto> v) ++ map_of xs"
  by (rule ext) (simp add: map_add_def split: option.splits)

lemma map_add_twice: "(m ++ g) ++ g = m ++ g"
  by (rule ext) (simp add: map_add_def split: option.splits)

lemma load_rows_channels: "channels (load_rows rs st) = channels st"
  by (induction rs arbitrary: st) simp_all

lemma load_rows_char:
  "load_rows rs st =
     st\<lparr>voice_channels :=
          voice_channels st ++
            map_of (rev (map (\<lambda>r. (channel_id r, owner_id r))
              (filter (\<lambda>r. channels st (channel_id r) \<noteq> None) rs))),
        tbl_voice_channels :=
          filter (\<lambda>x. channel_id x \<notin>
                    set (map channel_id (filter (\<lambda>r. channels st (channel_id r) = None) rs)))
            (tbl_voice_channels st),
        tbl_blocked_users :=
          filter (\<lambda>b. fst b \<notin>
                    set (map channel_id (filter (\<lambda>r. channels st (channel_id r) = None) rs)))
            (tbl_blocked_users st)\<rparr>"
proof (induction rs arbitrary: st)
  case Nil
  then show ?case by simp
next
  case (Cons r rs)
  show ?case
  proof (cases "channels st (channel_id r) = None")
    case True
    have f1: "filter (\<lambda>x. channel_id x \<notin> set (map channel_id (filter (\<lambda>r. channels st (channel_id r) = None) rs)))
              (filter (\<lambda>x. channel_id x \<noteq> channel_id r) (tbl_voice_channels st))
          = filter (\<lambda>x. channel_id x \<notin> set (map channel_id (filter (\<lambda>r. channels st (channel_id r) = None) (r # rs))))
              (tbl_voice_channels st)"
      using True by (auto intro: filter_cong)
    have f2: "filter (\<lambda>b. fst b \<notin> set (map channel_id (filter (\<lambda>r. channels st (channel_id r) = None) rs)))
              (filter (\<lambda>b. fst b \<noteq> channel_id r) (tbl_blocked_users st))
          = filter (\<lambda>b. fst b \<notin> set (map channel_id (filter (\<lambda>r. channels st (channel_id r) = None) (r # rs))))
              (tbl_blocked_users st)"
      using True by (auto intro: filter_cong)
    have "load_rows (r # rs) st =
        load_rows rs (st\<lparr>tbl_voice_channels :=
                   filter (\<lambda>x. channel_id x \<noteq> channel_id r) (tbl_voice_channels st),
                 tbl_blocked_users :=
                   filter (\<lambda>b. fst b \<noteq> channel_id r) (tbl_blocked_users st)\<rparr>)"
      using True by simp
    also have "\<dots> = st\<lparr>voice_channels :=
          voice_channels st ++
            map_of (rev (map (\<lambda>r. (channel_id r, owner_id r))
              (filter (\<lambda>r. channels st (channel_id r) \<noteq> None) rs))),
        tbl_voice_channels :=
          filter (\<lambda>x. channel_id x \<notin> set (map channel_id (filter (\<lambda>r. channels st (channel_id r) = None) rs)))
              (filter (\<lambda>x. channel_id x \<noteq> channel_id r) (tbl_voice_channels st)),
        tbl_blocked_users :=
          filter (\<lambda>b. fst b \<notin> set (map channel_id (filter (\<lambda>r. channels st (channel_id r) = None) rs)))
              (filter (\<lambda>b. fst b \<noteq> channel_id r) (tbl_blocked_users st))\<rparr>"
      by (subst Cons.IH) simp
    finally show ?thesis
      unfolding f1 f2 using True by simp
  next
    case False
    have "load_rows (r # rs) st =
        load_rows rs (st\<lparr>voice_channels := (voice_channels st)(channel_id r \<mapsto> owner_id r)\<rparr>)"
      using False by auto
    also have "\<dots> = st\<lparr>voice_channels :=
          (voice_channels st)(channel_id r \<mapsto> owner_id r) ++
            map_of (rev (map (\<lambda>r. (channel_id r, owner_id r))
              (filter (\<lambda>r. channels st (channel_id r) \<noteq> None) rs))),
        tbl_voice_channels :=
          filter (\<lambda>x. channel_id x \<notin> set (map channel_id (filter (\<lambda>r. channels st (channel_id r) = None) rs)))
              (tbl_voice_channels st),
        tbl_blocked_users :=
          filter (\<lambda>b. fst b \<notin> set (map channel_id (filter (\<lambda>r. channels st (channel_id r) = None) rs)))
              (tbl_blocked_users st)\<rparr>"
      by (subst Cons.IH) simp
    finally show ?thesis
      using False by (auto simp add: map_add_snoc simp del: map_of_append)
  qed
qed

lemma load_voice_channels_rows:
  "tbl_voice_channels (load_voice_channels st)
     = filter (\<lambda>r. channels st (channel_id r) \<noteq> None) (tbl_voice_channels st)"
proof -
  have "filter (\<lambda>x. channel_id x \<notin>
            set (map channel_id (filter (\<lambda>r. channels st (channel_id r) = None) (tbl_voice_channels st))))
          (tbl_voice_channels st)
      = filter (\<lambda>r. channels st (channel_id r) \<noteq> None) (tbl_voice_channels st)"
    by (rule filter_cong) auto
  then show ?thesis
    by (simp add: load_voice_channels_def load_rows_char)
qed

lemma load_rows_all_present:
  assumes "filter (\<lambda>r. channels st (channel_id r) = None) rs = []"
    and "voice_channels st = m ++ map_of (rev (map (\<lambda>r. (channel_id r, owner_id r)) rs))"
  shows "load_rows rs st = st"
proof -
  have present: "filter (\<lambda>r. channels st (channel_id r) \<noteq> None) rs = rs"
    using assms(1) by (auto simp: filter_empty_conv filter_id_conv)
  have same: "voice_channels st ++ map_of (rev (map (\<lambda>r. (channel_id r, owner_id r)) rs))
      = voice_channels st"
    by (metis assms(2) map_add_twice)
  have "load_rows rs st =
      st\<lparr>voice_channels :=
            voice_channels st ++ map_of (rev (map (\<lambda>r. (channel_id r, owner_id r)) rs)),
          tbl_voice_channels :=
            filter (\<lambda>x. channel_id x \<notin> set (map channel_id ([] :: voice_channels_row list)))
              (tbl_voice_channels st),
          tbl_blocked_users :=
            filter (\<lambda>b. fst b \<notin> set (map channel_id ([] :: voice_channels_row list)))
              (tbl_blocked_users st)\<rparr>"
    using load_rows_char [of rs st] unfolding present assms(1) .
  also have "\<dots> = st"
    by (simp add: same)
  finally show ?thesis .
qed

text \<open>
  Claim C7, amended: running \<^verbatim>\<open>load_voice_channels\<close> a second time on the state the
  first run left, with the platform unchanged, changes nothing. The first run keeps
  exactly the rows whose channel exists, deletes the \<^verbatim>\<open>blocked_users\<close> rows of the
  channels of absent rows, writes the owner of every kept row into the registry (a later
  row for the same channel wins) and leaves every other registry entry, and the
  platform, as they were.
\<close>

theorem load_voice_channels_idempotent:
  "load_voice_channels (load_voice_channels st) = load_voice_channels st
   \<and> tbl_voice_channels (load_voice_channels st)
       = filter (\<lambda>r. channels st (channel_id r) \<noteq> None) (tbl_voice_channels st)
   \<and> tbl_blocked_users (load_voice_channels st)
       = filter (\<lambda>b. fst b \<notin> set (map channel_id
             (filter (\<lambda>r. channels st (channel_id r) = None) (tbl_voice_channels st))))
           (tbl_blocked_users st)
   \<and> voice_channels (load_voice_channels st)
       = voice_channels st ++
           map_of (rev (map (\<lambda>r. (channel_id r, owner_id r))
             (filter (\<lambda>r. channels st (channel_id r) \<noteq> None) (tbl_voice_channels st))))
   \<and> channels (load_voice_channels st) = channels st"
proof -
  define st' where "st' = load_voice_channels st"
  define rs' where "rs' = filter (\<lambda>r. channels st (channel_id r) \<noteq> None) (tbl_voice_channels st)"
  have rows: "tbl_voice_channels st' = rs'"
    by (simp add: st'_def rs'_def load_voice_channels_rows)
  have blocked: "tbl_blocked_users st'
       = filter (\<lambda>b. fst b \<notin> set (map channel_id
             (filter (\<lambda>r. channels st (channel_id r) = None) (tbl_voice_channels st))))
           (tbl_blocked_users st)"
    by (simp add: st'_def load_voice_channels_def load_rows_char)
  have registry: "voice_channels st'
       = voice_channels st ++ map_of (rev (map (\<lambda>r. (channel_id r, owner_id r)) rs'))"
    by (simp add: st'_def rs'_def load_voice_channels_def load_rows_char)
  have platform: "channels st' = channels st"
    by (simp add: st'_def load_voice_channels_def load_rows_channels)
  have none_absent: "filter (\<lambda>r. channels st' (channel_id r) = None) rs' = []"
    by (auto simp: platform rs'_def filter_empty_conv)
  have "load_rows rs' st' = st'"
    using none_absent registry by (rule load_rows_all_present)
  then have again: "load_voice_channels st' = st'"
    by (simp add: load_voice_channels_def rows)
  show ?thesis
    using again rows blocked registry platform
    unfolding st'_def rs'_def by blast
qed

theorem load_voice_channels_idempotent_witness:
  "load_voice_channels (load_voice_channels restart_room) = load_voice_channels restart_room
   \<and> tbl_voice_channels (load_voice_channels restart_room)
       = [\<lparr>channel_id = 100, owner_id = 10, interface_message_id = None\<rparr>]
   \<and> tbl_blocked_users (load_voice_channels restart_room) = [(100, 30)]
   \<and> voice_channels (load_voice_channels restart_room) 100 = Some 10
   \<and> voice_channels (load_voice_channels restart_room) 300 = None"
  using load_voice_channels_idempotent [of restart_room]
  by (simp add: restart_room_def example_room_def)

section \<open>Presence events: properties\<close>

lemma create_voice_channel_other:
  assumes "new_channel_id e \<noteq> r"
  shows "channels (create_voice_channel cfg e m st) r = channels st r
     \<and> voice_channels (create_voice_channel cfg e m st) r = voice_channels st r
     \<and> filter (\<lambda>x. channel_id x = r) (tbl_voice_channels (create_voice_channel cfg e m st))
         = filter (\<lambda>x. channel_id x = r) (tbl_voice_channels st)
     \<and> tbl_blocked_users (create_voice_channel cfg e m st) = tbl_blocked_users st"
  using assms
  by (auto simp: create_voice_channel_def category_create_voice_channel_def move_to_def
      insert_voice_channel_def Let_def split: option.splits if_splits)

lemma is_on_cooldown_state:
  "channels (snd (is_on_cooldown cfg now a st)) = channels st
   \<and> voice_channels (snd (is_on_cooldown cfg now a st)) = voice_channels st
   \<and> tbl_voice_channels (snd (is_on_cooldown cfg now a st)) = tbl_voice_channels st
   \<and> tbl_blocked_users (snd (is_on_cooldown cfg now a st)) = tbl_blocked_users st"
  by (simp add: is_on_cooldown_def split: option.splits)

text \<open>
  Claim C8: when a member who is not the recorded owner of the managed channel \<open>r\<close>
  leaves \<open>r\<close> (a presence event with \<^verbatim>\<open>before.channel\<close> = \<open>r\<close>), nothing of \<open>r\<close> is
  destroyed: the platform channel, its registry entry, its \<^verbatim>\<open>voice_channels\<close> rows and
  the whole \<^verbatim>\<open>blocked_users\<close> table are as before. Unless the member moved on to the
  spawner channel the handler changes nothing at all; if it did, the only effects are
  those of creating that member's own new channel, whose id Discord chooses different
  from \<open>r\<close>.
\<close>

theorem non_owner_leaving_destroys_nothing:
  assumes left: "before = Some r"
    and managed: "voice_channels st r = Some owner"
    and other: "owner \<noteq> member_id m"
    and fresh: "new_channel_id e \<noteq> r"
  shows "channels (on_voice_state_update cfg e now m before after st) r = channels st r
     \<and> voice_channels (on_voice_state_update cfg e now m before after st) r = Some owner
     \<and> filter (\<lambda>x. channel_id x = r)
           (tbl_voice_channels (on_voice_state_update cfg e now m before after st))
         = filter (\<lambda>x. channel_id x = r) (tbl_voice_channels st)
     \<and> tbl_blocked_users (on_voice_state_update cfg e now m before after st) = tbl_blocked_users st
     \<and> (after \<noteq> Some (create_voice_channel_id cfg) \<longrightarrow>
          on_voice_state_update cfg e now m before after st = st)"
proof (cases "member_bot m")
  case True
  then show ?thesis
    using managed by (simp add: on_voice_state_update_def)
next
  case human: False
  show ?thesis
  proof (cases "after = Some (create_voice_channel_id cfg)")
    case False
    then show ?thesis
      using human left managed other by (simp add: on_voice_state_update_def)
  next
    case True
    obtain on st1 where c: "is_on_cooldown cfg now (member_id m) st = (on, st1)"
      by (cases "is_on_cooldown cfg now (member_id m) st")
    have same: "channels st1 = channels st \<and> voice_channels st1 = voice_channels st
        \<and> tbl_voice_channels st1 = tbl_voice_channels st
        \<and> tbl_blocked_users st1 = tbl_blocked_users st"
      using is_on_cooldown_state [of cfg now "member_id m" st] by (simp add: c)
    show ?thesis
    proof (cases on)
      case True
      have "on_voice_state_update cfg e now m before after st = st1"
        using human \<open>after = Some (create_voice_channel_id cfg)\<close> c True
        by (simp add: on_voice_state_update_def)
      then show ?thesis
        using same managed \<open>after = Some (create_voice_channel_id cfg)\<close> by simp
    next
      case False
      have "on_voice_state_update cfg e now m before after st = create_voice_channel cfg e m st1"
        using human \<open>after = Some (create_voice_channel_id cfg)\<close> c False
        by (simp add: on_voice_state_update_def)
      then show ?thesis
        using create_voice_channel_other [OF fresh, of cfg m st1] same managed
          \<open>after = Some (create_voice_channel_id cfg)\<close>
        by simp
    qed
  qed
qed

lemmas vsu_defs = on_voice_state_update_def is_on_cooldown_def create_voice_channel_def
  category_create_voice_channel_def move_to_def insert_voice_channel_def

theorem non_owner_leaving_destroys_nothing_witness:
  "voice_channels example_room 100 = Some 10
   \<and> 10 \<noteq> member_id bea
   \<and> new_channel_id calm \<noteq> 100
   \<and> on_voice_state_update example_config calm 0 bea (Some 100) None example_room = example_room
   \<and> channels (on_voice_state_update example_config calm 0 bea (Some 100)
         (Some (create_voice_channel_id example_config)) example_room) 100 = Some example_channel
   \<and> voice_channels (on_voice_state_update example_config calm 0 bea (Some 100)
         (Some (create_voice_channel_id example_config)) example_room) 100 = Some 10
   \<and> voice_channels (on_voice_state_update example_config calm 0 bea (Some 100)
         (Some (create_voice_channel_id example_config)) example_room) 200 = Some 20"
proof -
  have managed: "voice_channels example_room 100 = Some 10"
    by (simp add: example_room_def)
  have other: "10 \<noteq> member_id bea"
    by (simp add: bea_def)
  have fresh: "new_channel_id calm \<noteq> 100"
    by (simp add: calm_def)
  note away = non_owner_leaving_destroys_nothing
    [OF refl managed other fresh, of example_config 0 None]
  note hop = non_owner_leaving_destroys_nothing
    [OF refl managed other fresh, of example_config 0 "Some (create_voice_channel_id example_config)"]
  have stays: "on_voice_state_update example_config calm 0 bea (Some 100) None example_room = example_room"
    using away by simp
  have room: "channels example_room 100 = Some example_channel"
    by (simp add: example_room_def)
  have created: "voice_channels (on_voice_state_update example_config calm 0 bea (Some 100)
         (Some (create_voice_channel_id example_config)) example_room) 200 = Some 20"
    by (simp add: vsu_defs example_config_def calm_def bea_def example_room_def Let_def)
  show ?thesis
    using managed other fresh stays hop room created by simp
qed

section \<open>The validation of the buttons\<close>








section \<open>Ownership transfer: properties\<close>







end
